theory Spec2Isabelle
  imports Complex_Main
begin

section \<open>Python values and strings\<close>

text \<open>
  Strings are lists of \<^typ>\<open>char\<close>; a \<^typ>\<open>char\<close> stands for the Unicode code point
  of the same number, so the model covers Python strings over U+0000 .. U+00FF and
  \<open>length\<close> counts code points as Python's \<open>len\<close> does. The character classes below
  are those of Python 3 on that range.
\<close>

definition py_isspace :: "char \<Rightarrow> bool" where
  \<comment> \<open>\<open>str.isspace\<close>: TAB..CR, FS..US, SPACE, NEL, NBSP\<close>
  "py_isspace c =
     (let n = (of_char c :: nat)
      in (9 \<le> n \<and> n \<le> 13) \<or> (28 \<le> n \<and> n \<le> 32) \<or> n = 133 \<or> n = 160)"

definition py_isalnum :: "char \<Rightarrow> bool" where
  \<comment> \<open>\<open>str.isalnum\<close>: letters, decimal digits and the other numeric characters\<close>
  "py_isalnum c =
     (let n = (of_char c :: nat)
      in (48 \<le> n \<and> n \<le> 57) \<or> (65 \<le> n \<and> n \<le> 90) \<or> (97 \<le> n \<and> n \<le> 122)
         \<or> n = 170 \<or> n = 178 \<or> n = 179 \<or> n = 181 \<or> n = 185 \<or> n = 186
         \<or> (188 \<le> n \<and> n \<le> 190) \<or> (192 \<le> n \<and> n \<le> 214)
         \<or> (216 \<le> n \<and> n \<le> 246) \<or> (248 \<le> n \<and> n \<le> 255))"

definition py_lower_char :: "char \<Rightarrow> char" where
  "py_lower_char c =
     (let n = (of_char c :: nat)
      in if (65 \<le> n \<and> n \<le> 90) \<or> (192 \<le> n \<and> n \<le> 222 \<and> n \<noteq> 215)
         then char_of (n + 32) else c)"

definition py_lower :: "string \<Rightarrow> string" where
  "py_lower s = map py_lower_char s"

definition py_strip :: "string \<Rightarrow> string" where
  "py_strip s = rev (dropWhile py_isspace (rev (dropWhile py_isspace s)))"

fun join_str :: "string \<Rightarrow> string list \<Rightarrow> string" where
  "join_str sep [] = []"
| "join_str sep [x] = x"
| "join_str sep (x # y # ys) = x @ sep @ join_str sep (y # ys)"

fun str_nat :: "nat \<Rightarrow> string" where
  "str_nat n =
     (if n < 10 then [char_of (48 + n)]
      else str_nat (n div 10) @ [char_of (48 + n mod 10)])"

declare str_nat.simps [simp del]

definition str_int :: "int \<Rightarrow> string" where
  "str_int i = (if i < 0 then CHR ''-'' # str_nat (nat (- i)) else str_nat (nat i))"

text \<open>
  A value of a decoded JSON response. The client compares such values with string
  literals, tests their truth value and formats them with \<open>str()\<close>; a value that is not
  a string is kept as what these three observations give: it equals no string, and it
  has a rendering and a truth value.
\<close>

datatype pyval = Str string | NonStr string bool

fun py_str :: "pyval \<Rightarrow> string" where
  "py_str (Str s) = s"
| "py_str (NonStr rendering t) = rendering"

fun truthy :: "pyval \<Rightarrow> bool" where
  "truthy (Str s) = (s \<noteq> [])"
| "truthy (NonStr rendering t) = t"

definition py_None :: pyval where
  "py_None = NonStr ''None'' False"

type_synonym pydict = "string \<rightharpoonup> pyval"

definition dict_get :: "pydict \<Rightarrow> string \<Rightarrow> pyval \<Rightarrow> pyval" where
  \<comment> \<open>\<open>d.get(key, default)\<close>\<close>
  "dict_get d k dflt = (case d k of None \<Rightarrow> dflt | Some v \<Rightarrow> v)"

section \<open>Errors\<close>

datatype error =
    CaptionsAPIError string
  | OtherException string  \<comment> \<open>any exception the client does not convert\<close>

section \<open>The HTTP layer: \<open>_make_request\<close>\<close>

record http_error_response =
  status_code :: nat
  response_text :: string
  json_str :: "string option"
    \<comment> \<open>\<open>str()\<close> of what \<open>e.response.json()\<close> returns; \<open>None\<close> when it raises\<close>

text \<open>What the body of the \<open>try\<close> in \<open>_make_request\<close> does.\<close>

datatype 'a http_result =
    Returned 'a
      \<comment> \<open>\<open>raise_for_status()\<close> passed, \<open>response.json()\<close> is returned\<close>
  | HTTPError string http_error_response
      \<comment> \<open>\<open>raise_for_status()\<close> raised \<open>HTTPError e\<close>: \<open>str(e)\<close> and \<open>e.response\<close>\<close>
  | RequestException string
      \<comment> \<open>any other \<open>requests.exceptions.RequestException e\<close>: \<open>str(e)\<close>\<close>
  | Uncaught string
      \<comment> \<open>an exception outside \<open>RequestException\<close>\<close>

definition bad_request :: "http_error_response \<Rightarrow> error + 'a" where
  \<comment> \<open>the inner \<open>try\<close> of the 400 branch; its bare \<open>except:\<close> handles every exception
      raised in the \<open>try\<close> body, the \<open>CaptionsAPIError\<close> raised there included\<close>
  "bad_request r =
     (let attempt =
        (case json_str r of
           None \<Rightarrow> Inl (OtherException ''JSONDecodeError'')
         | Some error_detail \<Rightarrow> Inl (CaptionsAPIError (''Bad request: '' @ error_detail)))
      in case attempt of
           Inl _ \<Rightarrow> Inl (CaptionsAPIError (''Bad request: '' @ response_text r))
         | Inr v \<Rightarrow> Inr v)"

definition make_request :: "'a http_result \<Rightarrow> error + 'a" where
  "make_request res =
     (case res of
        Returned v \<Rightarrow> Inr v
      | HTTPError msg r \<Rightarrow>
          if status_code r = 401 then
            Inl (CaptionsAPIError ''Invalid API key. Please check your credentials.'')
          else if status_code r = 429 then
            Inl (CaptionsAPIError
                   ''Rate limit exceeded. Please wait before making another request.'')
          else if status_code r = 402 then
            Inl (CaptionsAPIError ''Insufficient credits. Please purchase more credits.'')
          else if status_code r = 400 then bad_request r
          else Inl (CaptionsAPIError (''API request failed: '' @ msg))
      | RequestException msg \<Rightarrow> Inl (CaptionsAPIError (''API request failed: '' @ msg))
      | Uncaught msg \<Rightarrow> Inl (OtherException msg))"

section \<open>The world: clock, upstream service and file system\<close>

record payload =
  p_script :: string
  p_creatorName :: string
  p_mediaUrls :: "string list"
  p_resolution :: string
  p_webhookId :: "string option"

datatype download_result =
    Body string            \<comment> \<open>the whole body arrives\<close>
  | Refused string         \<comment> \<open>\<open>RequestException\<close> before the file is opened\<close>
  | Broken string string   \<comment> \<open>\<open>RequestException\<close> after these bytes were written\<close>

text \<open>
  The upstream service answers each call after some time. The reply to a poll may
  depend on how many polls came before it and on the operation id sent. The clock
  moves by the time each call takes and by the length of each sleep; reading it
  takes no time.
\<close>

record upstream =
  submit_reply :: "payload \<Rightarrow> real \<times> pydict http_result"
  poll_reply :: "nat \<Rightarrow> pyval \<Rightarrow> real \<times> pydict http_result"
  download_reply :: "pyval \<Rightarrow> real \<times> download_result"
  clock_stamp :: string
    \<comment> \<open>\<open>datetime.now().strftime("%Y%m%d_%H%M%S")\<close>\<close>

record world =
  now :: real                      \<comment> \<open>\<open>time.time()\<close>\<close>
  submitted :: "payload list"      \<comment> \<open>payloads posted to \<open>/api/ads/submit\<close>\<close>
  polls :: nat                     \<comment> \<open>calls to \<open>/api/ads/poll\<close> so far\<close>
  sleeps :: "int list"             \<comment> \<open>arguments of \<open>time.sleep\<close>, in order\<close>
  fetched :: "pyval list"          \<comment> \<open>URLs requested by \<open>download_video\<close>\<close>
  dirs :: "string set"             \<comment> \<open>directories created by this run\<close>
  files :: "string \<rightharpoonup> string"  \<comment> \<open>files written by this run\<close>

definition py_sleep :: "int \<Rightarrow> world \<Rightarrow> error + world" where
  "py_sleep d w =
     (if d < 0 then Inl (OtherException ''ValueError: sleep length must be non-negative'')
      else Inr (w\<lparr>now := now w + real_of_int d, sleeps := sleeps w @ [d]\<rparr>))"

definition makedirs :: "string \<Rightarrow> world \<Rightarrow> error + world" where
  \<comment> \<open>\<open>os.makedirs(path, exist_ok=True)\<close>; the empty path raises\<close>
  "makedirs path w =
     (if path = [] then Inl (OtherException ''FileNotFoundError'')
      else Inr (w\<lparr>dirs := insert path (dirs w)\<rparr>))"

definition path_join :: "string \<Rightarrow> string \<Rightarrow> string" where
  \<comment> \<open>\<open>os.path.join\<close> of two components (POSIX)\<close>
  "path_join a b =
     (if b \<noteq> [] \<and> hd b = CHR ''/'' then b
      else if a = [] \<or> last a = CHR ''/'' then a @ b
      else a @ ''/'' @ b)"

definition path_dirname :: "string \<Rightarrow> string" where
  \<comment> \<open>\<open>os.path.dirname\<close> (POSIX)\<close>
  "path_dirname p =
     (let head = rev (dropWhile (\<lambda>c. c \<noteq> CHR ''/'') (rev p))
      in if head \<noteq> [] \<and> \<not> list_all (\<lambda>c. c = CHR ''/'') head
         then rev (dropWhile (\<lambda>c. c = CHR ''/'') (rev head))
         else head)"

section \<open>The API client\<close>

definition placeholder_media :: "string list" where
  "placeholder_media =
     [''https://images.unsplash.com/photo-1611224923853-80b023f02d71?w=800&h=600&fit=crop'']"

definition build_payload ::
  "string \<Rightarrow> string \<Rightarrow> string list option \<Rightarrow> string \<Rightarrow> string option \<Rightarrow> payload" where
  "build_payload script creator_name media_urls resolution webhook_id =
     \<lparr> p_script = script,
       p_creatorName = creator_name,
       p_mediaUrls =
         (case media_urls of
            None \<Rightarrow> placeholder_media
          | Some us \<Rightarrow> if us = [] then placeholder_media else us),
       p_resolution = resolution,
       p_webhookId =
         (case webhook_id of
            None \<Rightarrow> None
          | Some wh \<Rightarrow> if wh = [] then None else Some wh) \<rparr>"

definition create_ai_ad ::
  "upstream \<Rightarrow> string \<Rightarrow> string \<Rightarrow> string list option \<Rightarrow> string \<Rightarrow> string option
     \<Rightarrow> world \<Rightarrow> world \<times> (error + pyval)" where
  "create_ai_ad up script creator_name media_urls resolution webhook_id w =
     (let pl = build_payload script creator_name media_urls resolution webhook_id;
          (d, res) = submit_reply up pl;
          w1 = w\<lparr>now := now w + d, submitted := submitted w @ [pl]\<rparr>
      in case make_request res of
           Inl e \<Rightarrow> (w1, Inl e)
         | Inr response \<Rightarrow>
             (let operation_id = dict_get response ''operationId'' py_None
              in if \<not> truthy operation_id
                 then (w1, Inl (CaptionsAPIError ''No operation ID received from API''))
                 else (w1, Inr operation_id)))"

definition get_job_status :: "upstream \<Rightarrow> pyval \<Rightarrow> world \<Rightarrow> world \<times> (error + pydict)" where
  "get_job_status up operation_id w =
     (let (d, res) = poll_reply up (polls w) operation_id
      in (w\<lparr>now := now w + d, polls := polls w + 1\<rparr>, make_request res))"

partial_function (option) wait_loop ::
  "upstream \<Rightarrow> pyval \<Rightarrow> int \<Rightarrow> int \<Rightarrow> real \<Rightarrow> world \<Rightarrow> (world \<times> (error + pyval)) option" where
  "wait_loop up operation_id timeout poll_interval start_time w =
     (if now w - start_time > real_of_int timeout then
        Some (w, Inl (CaptionsAPIError
                (''Job '' @ py_str operation_id @ '' timed out after ''
                   @ str_int timeout @ '' seconds'')))
      else
        case get_job_status up operation_id w of
          (w1, Inl e) \<Rightarrow> Some (w1, Inl e)
        | (w1, Inr status) \<Rightarrow>
            (let state = dict_get status ''state'' (Str ''unknown'')
             in if state = Str ''COMPLETE'' then
                  (let video_url = dict_get status ''url'' py_None
                   in if truthy video_url then Some (w1, Inr video_url)
                      else Some (w1, Inl (CaptionsAPIError
                                   ''Job completed but no video URL found'')))
                else if state = Str ''FAILED'' then
                  (let err = dict_get status ''error'' (Str ''Unknown error'')
                   in Some (w1, Inl (CaptionsAPIError
                              (''Job '' @ py_str operation_id @ '' failed: ''
                                 @ py_str err))))
                else if state \<in> set [Str ''PENDING'', Str ''PROCESSING'', Str ''QUEUED''] then
                  (case py_sleep poll_interval w1 of
                     Inl e \<Rightarrow> Some (w1, Inl e)
                   | Inr w2 \<Rightarrow>
                       wait_loop up operation_id timeout poll_interval start_time w2)
                else
                  Some (w1, Inl (CaptionsAPIError
                          (''Unknown job state: '' @ py_str state)))))"

definition default_timeout :: int where
  "default_timeout = 300"

definition default_poll_interval :: int where
  "default_poll_interval = 10"

definition wait_for_completion ::
  "upstream \<Rightarrow> pyval \<Rightarrow> int \<Rightarrow> int \<Rightarrow> world \<Rightarrow> (world \<times> (error + pyval)) option" where
  "wait_for_completion up operation_id timeout poll_interval w =
     wait_loop up operation_id timeout poll_interval (now w) w"

definition download_video ::
  "upstream \<Rightarrow> pyval \<Rightarrow> string \<Rightarrow> world \<Rightarrow> world \<times> (error + string)" where
  "download_video up video_url output_path w =
     (let (d, res) = download_reply up video_url;
          w1 = w\<lparr>now := now w + d, fetched := fetched w @ [video_url]\<rparr>
      in case res of
           Refused msg \<Rightarrow>
             (w1, Inl (CaptionsAPIError (''Failed to download video: '' @ msg)))
         | Broken part msg \<Rightarrow>
             (case makedirs (path_dirname output_path) w1 of
                Inl e \<Rightarrow> (w1, Inl e)
              | Inr w2 \<Rightarrow>
                  (w2\<lparr>files := (files w2)(output_path \<mapsto> part)\<rparr>,
                   Inl (CaptionsAPIError (''Failed to download video: '' @ msg))))
         | Body content \<Rightarrow>
             (case makedirs (path_dirname output_path) w1 of
                Inl e \<Rightarrow> (w1, Inl e)
              | Inr w2 \<Rightarrow>
                  (w2\<lparr>files := (files w2)(output_path \<mapsto> content)\<rparr>, Inr output_path)))"

section \<open>The video generator\<close>

definition valid_resolutions :: "string list" where
  "valid_resolutions = [''fhd'', ''hd'', ''4k'']"

definition validate_inputs :: "string \<Rightarrow> string \<Rightarrow> string \<Rightarrow> error + unit" where
  "validate_inputs script creator_name resolution =
     (if script = [] \<or> length (py_strip script) < 10 then
        Inl (CaptionsAPIError ''Script must be at least 10 characters long'')
      else if creator_name = [] \<or> length (py_strip creator_name) < 1 then
        Inl (CaptionsAPIError ''Creator name is required'')
      else if py_lower resolution \<notin> set valid_resolutions then
        Inl (CaptionsAPIError
               (''Invalid resolution. Must be one of: '' @ join_str '', '' valid_resolutions))
      else Inr ())"

definition generate_filename :: "string \<Rightarrow> string \<Rightarrow> string \<Rightarrow> string \<Rightarrow> string" where
  \<comment> \<open>the first argument is the timestamp read from the clock\<close>
  "generate_filename timestamp script creator_name resolution =
     filter (\<lambda>c. py_isalnum c \<or> c \<in> set ''._-'')
       (''ai_ad_'' @ creator_name @ ''_'' @ resolution @ ''_'' @ timestamp @ ''.mp4'')"

definition generate_ad_video ::
  "upstream \<Rightarrow> string \<Rightarrow> string \<Rightarrow> string list option \<Rightarrow> string \<Rightarrow> string option
     \<Rightarrow> string \<Rightarrow> string option \<Rightarrow> world \<Rightarrow> (world \<times> (error + string)) option" where
  "generate_ad_video up script creator_name media_urls resolution webhook_id
       output_dir filename w =
     (case validate_inputs script creator_name resolution of
        Inl e \<Rightarrow> Some (w, Inl e)
      | Inr _ \<Rightarrow>
          (case makedirs output_dir w of
             Inl e \<Rightarrow> Some (w, Inl e)
           | Inr w1 \<Rightarrow>
               (let generated =
                      generate_filename (clock_stamp up) script creator_name resolution;
                    fname = (case filename of
                               None \<Rightarrow> generated
                             | Some f \<Rightarrow> if f = [] then generated else f);
                    output_path = path_join output_dir fname
                in case create_ai_ad up script creator_name media_urls resolution
                          webhook_id w1 of
                     (w2, Inl e) \<Rightarrow> Some (w2, Inl e)
                   | (w2, Inr operation_id) \<Rightarrow>
                       (case wait_for_completion up operation_id default_timeout
                               default_poll_interval w2 of
                          None \<Rightarrow> None
                        | Some (w3, Inl e) \<Rightarrow> Some (w3, Inl e)
                        | Some (w3, Inr video_url) \<Rightarrow>
                            Some (download_video up video_url output_path w3)))))"

section \<open>A scripted upstream service\<close>

text \<open>
  A test double: submission answers with the operation id \<open>op123\<close>, the polls answer
  with the given statuses in order and \<open>PENDING\<close> ever after, every call returns at
  once, and the download delivers a fixed body.
\<close>

definition scripted_upstream :: "pydict list \<Rightarrow> upstream" where
  "scripted_upstream statuses =
     \<lparr> submit_reply = (\<lambda>pl. (0, Returned [''operationId'' \<mapsto> Str ''op123''])),
       poll_reply = (\<lambda>i operation_id.
         (0, Returned (if i < length statuses then statuses ! i
                       else [''state'' \<mapsto> Str ''PENDING'']))),
       download_reply = (\<lambda>url. (0, Body ''video-bytes'')),
       clock_stamp = ''20240101_120000'' \<rparr>"

definition fresh_world :: world where
  "fresh_world =
     \<lparr> now = 0, submitted = [], polls = 0, sleeps = [], fetched = [], dirs = {},
       files = Map.empty \<rparr>"

section \<open>Character sets named by the specification\<close>

definition ascii_filename_char :: "char \<Rightarrow> bool" where
  \<comment> \<open>the set \<open>[A-Za-z0-9._-]\<close>\<close>
  "ascii_filename_char c =
     (let n = (of_char c :: nat)
      in (48 \<le> n \<and> n \<le> 57) \<or> (65 \<le> n \<and> n \<le> 90) \<or> (97 \<le> n \<and> n \<le> 122)
         \<or> c = CHR ''.'' \<or> c = CHR ''_'' \<or> c = CHR ''-'')"

definition is_ascii :: "char \<Rightarrow> bool" where
  "is_ascii c = ((of_char c :: nat) < 128)"

section \<open>Input validation\<close>

lemma py_strip_Nil: "py_strip [] = []"
  by (simp add: py_strip_def)

text \<open>
  C5. \<open>validate_inputs\<close> fails exactly when the trimmed script has fewer than 10
  characters, or the creator name is empty after trimming, or the lowercased
  resolution is none of \<open>fhd\<close>, \<open>hd\<close>, \<open>4k\<close>; otherwise it succeeds, whatever the
  script says. It is a function of its three arguments alone, and when it fails
  \<open>generate_ad_video\<close> returns its error with the world untouched: no request, no
  directory, no file.
\<close>

theorem validate_inputs_fails_iff:
  "(isl (validate_inputs script creator_name resolution) \<longleftrightarrow>
      length (py_strip script) < 10 \<or> py_strip creator_name = []
      \<or> py_lower resolution \<notin> {''fhd'', ''hd'', ''4k''})
   \<and> (\<not> isl (validate_inputs script creator_name resolution) \<longrightarrow>
        validate_inputs script creator_name resolution = Inr ())
   \<and> (\<forall>e. validate_inputs script creator_name resolution = Inl e \<longrightarrow>
        generate_ad_video up script creator_name media_urls resolution webhook_id
          output_dir filename w = Some (w, Inl e))"
  by (auto simp: validate_inputs_def valid_resolutions_def generate_ad_video_def py_strip_Nil)

theorem validate_inputs_fails_iff_witness:
  "validate_inputs ''Buy shoes!'' ''Kate'' ''HD'' = Inr ()
   \<and> isl (validate_inputs ''Buy shoes'' ''Kate'' ''hd'')
   \<and> isl (validate_inputs ''Buy shoes!'' ''  '' ''hd'')
   \<and> isl (validate_inputs ''Buy shoes!'' ''Kate'' ''8k'')
   \<and> generate_ad_video (scripted_upstream []) ''  Buy shoes  '' ''Kate'' None ''hd'' None
         ''out'' None fresh_world
       = Some (fresh_world,
               Inl (CaptionsAPIError ''Script must be at least 10 characters long''))"
proof -
  have l: "py_lower ''HD'' = ''hd''" "py_lower ''hd'' = ''hd''" "py_lower ''8k'' = ''8k''"
    by code_simp+
  have s: "py_strip ''Buy shoes!'' = ''Buy shoes!''" "py_strip ''Buy shoes'' = ''Buy shoes''"
    "py_strip ''  Buy shoes  '' = ''Buy shoes''"
    "py_strip ''Kate'' = ''Kate''" "py_strip ''  '' = []"
    by code_simp+
  have v: "validate_inputs ''  Buy shoes  '' ''Kate'' ''hd''
             = Inl (CaptionsAPIError ''Script must be at least 10 characters long'')"
    by (simp add: validate_inputs_def s)
  show ?thesis
    using validate_inputs_fails_iff [of "''Buy shoes!''" "''Kate''" "''HD''"]
      validate_inputs_fails_iff [of "''Buy shoes''" "''Kate''" "''hd''"]
      validate_inputs_fails_iff [of "''Buy shoes!''" "''  ''" "''hd''"]
      validate_inputs_fails_iff [of "''Buy shoes!''" "''Kate''" "''8k''"]
      validate_inputs_fails_iff
        [of "''  Buy shoes  ''" "''Kate''" "''hd''" "scripted_upstream []" None None
           "''out''" None fresh_world]
    by (simp add: l s v)
qed

section \<open>Generated file names\<close>

lemma keep_mp4: "filter (\<lambda>c. py_isalnum c \<or> c \<in> set ''._-'') ''.mp4'' = ''.mp4''"
  by (simp add: py_isalnum_def)

lemma ascii_kept:
  "is_ascii c \<Longrightarrow> py_isalnum c \<or> c \<in> set ''._-'' \<Longrightarrow> ascii_filename_char c"
  by (auto simp: is_ascii_def py_isalnum_def ascii_filename_char_def Let_def)

text \<open>
  C7, as stated, fails: \<open>str.isalnum\<close> accepts letters outside ASCII, so the creator
  name \<open>Jos\<close> followed by U+00E9 (e with acute accent) leaves a character outside \<open>[A-Za-z0-9._-]\<close> in the
  generated file name.
\<close>

theorem generate_filename_counterexample:
  "\<not> list_all ascii_filename_char
       (generate_filename ''20240101_120000'' ''Buy our new shoes today''
          [CHR ''J'', CHR ''o'', CHR ''s'', CHR 0xE9] ''fhd'')"
  by (simp add: generate_filename_def py_isalnum_def ascii_filename_char_def)

text \<open>
  C7, amended. The generated file name does not depend on the script; it is the
  text \<open>ai_ad_<creator>_<resolution>_<timestamp>\<close> with every character dropped that
  is neither alphanumeric in the sense of \<open>str.isalnum\<close> nor one of \<open>. _ -\<close>,
  followed by \<open>.mp4\<close>; so each of its characters is alphanumeric in that sense or one
  of \<open>. _ -\<close>. When creator name, resolution and timestamp are ASCII, each of its
  characters is in \<open>[A-Za-z0-9._-]\<close>.
\<close>

theorem generate_filename_charset:
  "generate_filename ts script creator_name resolution
     = generate_filename ts script' creator_name resolution
   \<and> generate_filename ts script creator_name resolution
     = filter (\<lambda>c. py_isalnum c \<or> c \<in> set ''._-'')
         (''ai_ad_'' @ creator_name @ ''_'' @ resolution @ ''_'' @ ts) @ ''.mp4''
   \<and> list_all (\<lambda>c. py_isalnum c \<or> c \<in> set ''._-'')
        (generate_filename ts script creator_name resolution)
   \<and> (list_all is_ascii (creator_name @ resolution @ ts) \<longrightarrow>
        list_all ascii_filename_char (generate_filename ts script creator_name resolution))"
proof -
  let ?keep = "\<lambda>c. py_isalnum c \<or> c \<in> set ''._-''"
  have ind: "generate_filename ts script creator_name resolution
     = generate_filename ts script' creator_name resolution"
    by (simp add: generate_filename_def)
  have shape: "generate_filename ts script creator_name resolution
     = filter ?keep (''ai_ad_'' @ creator_name @ ''_'' @ resolution @ ''_'' @ ts) @ ''.mp4''"
    unfolding generate_filename_def using keep_mp4 by (simp add: py_isalnum_def)
  have kept: "list_all ?keep (generate_filename ts script creator_name resolution)"
    unfolding generate_filename_def list_all_iff by auto
  have asc: "list_all ascii_filename_char (generate_filename ts script creator_name resolution)"
    if a: "list_all is_ascii (creator_name @ resolution @ ts)"
  proof -
    have "list_all is_ascii
       (''ai_ad_'' @ creator_name @ ''_'' @ resolution @ ''_'' @ ts @ ''.mp4'')"
      using a by (simp add: is_ascii_def)
    then show ?thesis
      unfolding generate_filename_def list_all_iff using ascii_kept by auto
  qed
  from ind shape kept asc show ?thesis by blast
qed

theorem generate_filename_charset_witness:
  "list_all is_ascii (''Jane's Ad!'' @ ''fhd'' @ ''20240101_120000'')
   \<and> generate_filename ''20240101_120000'' ''Buy our new shoes today'' ''Jane's Ad!'' ''fhd''
     = ''ai_ad_JanesAd_fhd_20240101_120000.mp4''
   \<and> list_all ascii_filename_char
       (generate_filename ''20240101_120000'' ''Buy our new shoes today'' ''Jane's Ad!'' ''fhd'')"
proof -
  have a: "list_all is_ascii (''Jane's Ad!'' @ ''fhd'' @ ''20240101_120000'')"
    by (simp add: is_ascii_def)
  have e: "generate_filename ''20240101_120000'' ''Buy our new shoes today'' ''Jane's Ad!'' ''fhd''
     = ''ai_ad_JanesAd_fhd_20240101_120000.mp4''"
    by (simp add: generate_filename_def py_isalnum_def)
  show ?thesis
    using generate_filename_charset [of "''20240101_120000''" "''Buy our new shoes today''"
        "''Jane's Ad!''" "''fhd''" "''Buy our new shoes today''"] a e
    by blast
qed

section \<open>The HTTP layer\<close>

lemma make_request_error_mapping:
  "make_request (RequestException msg) = Inl (CaptionsAPIError (''API request failed: '' @ msg))"
  "status_code r = 401 \<Longrightarrow> make_request (HTTPError msg r)
     = Inl (CaptionsAPIError ''Invalid API key. Please check your credentials.'')"
  "status_code r = 429 \<Longrightarrow> make_request (HTTPError msg r)
     = Inl (CaptionsAPIError ''Rate limit exceeded. Please wait before making another request.'')"
  "status_code r = 402 \<Longrightarrow> make_request (HTTPError msg r)
     = Inl (CaptionsAPIError ''Insufficient credits. Please purchase more credits.'')"
  "status_code r = 400 \<Longrightarrow> make_request (HTTPError msg r)
     = Inl (CaptionsAPIError (''Bad request: '' @ response_text r))"
  "status_code r \<notin> {401, 429, 402, 400} \<Longrightarrow> make_request (HTTPError msg r)
     = Inl (CaptionsAPIError (''API request failed: '' @ msg))"
  by (auto simp: make_request_def bad_request_def split: option.splits)

text \<open>
  C6. Every failure of a call through \<open>_make_request\<close> becomes a \<open>CaptionsAPIError\<close>
  chosen by the HTTP status, as \<open>make_request_error_mapping\<close> lists, with one
  exception to what the claim says: a 400 response whose body parses as JSON is
  reported with the raw response text, not with the parsed body. The
  \<open>CaptionsAPIError\<close> carrying the parsed body is raised inside the inner \<open>try\<close>, and
  the bare \<open>except:\<close> of that \<open>try\<close> catches it and raises the raw-text error in its
  place. Here the body \<open>{"error": "Invalid creator"}\<close> parses to a dictionary that
  \<open>str()\<close> renders with single quotes, and the error raised carries the text with
  double quotes.
\<close>

theorem bad_request_reports_raw_text:
  "make_request
     (HTTPError msg
        \<lparr> status_code = 400,
          response_text = ''{\"error\": \"Invalid creator\"}'',
          json_str = Some ''{'error': 'Invalid creator'}'' \<rparr>)
   = Inl (CaptionsAPIError ''Bad request: {\"error\": \"Invalid creator\"}'')"
  by (simp add: make_request_def bad_request_def)

section \<open>One iteration of the polling loop\<close>

lemma str_int_1: "str_int 1 = ''1''"
  by code_simp

lemma str_int_300: "str_int 300 = ''300''"
  by code_simp

lemma scripted_poll:
  "poll_reply (scripted_upstream statuses) i op =
     (0, Returned (if i < length statuses then statuses ! i
                   else [''state'' \<mapsto> Str ''PENDING'']))"
  by (simp add: scripted_upstream_def)

lemma scripted_submit:
  "submit_reply (scripted_upstream statuses) pl
     = (0, Returned [''operationId'' \<mapsto> Str ''op123''])"
  by (simp add: scripted_upstream_def)

lemma wait_loop_timed_out:
  "now w - start_time > real_of_int timeout \<Longrightarrow>
   wait_loop up op timeout poll_interval start_time w
     = Some (w, Inl (CaptionsAPIError
         (''Job '' @ py_str op @ '' timed out after '' @ str_int timeout @ '' seconds'')))"
  by (subst wait_loop.simps) simp

lemma wait_loop_poll:
  assumes "\<not> now w - start_time > real_of_int timeout"
    and "poll_reply up (polls w) op = (d, Returned status)"
  shows "wait_loop up op timeout poll_interval start_time w =
    (let w1 = w\<lparr>now := now w + d, polls := polls w + 1\<rparr>;
         state = dict_get status ''state'' (Str ''unknown'')
     in if state = Str ''COMPLETE'' then
          (let video_url = dict_get status ''url'' py_None
           in if truthy video_url then Some (w1, Inr video_url)
              else Some (w1, Inl (CaptionsAPIError ''Job completed but no video URL found'')))
        else if state = Str ''FAILED'' then
          Some (w1, Inl (CaptionsAPIError
                  (''Job '' @ py_str op @ '' failed: ''
                     @ py_str (dict_get status ''error'' (Str ''Unknown error'')))))
        else if state \<in> set [Str ''PENDING'', Str ''PROCESSING'', Str ''QUEUED''] then
          (case py_sleep poll_interval w1 of
             Inl e \<Rightarrow> Some (w1, Inl e)
           | Inr w2 \<Rightarrow> wait_loop up op timeout poll_interval start_time w2)
        else Some (w1, Inl (CaptionsAPIError (''Unknown job state: '' @ py_str state))))"
  using assms
  by (subst wait_loop.simps) (simp add: get_job_status_def make_request_def Let_def)

lemma wait_loop_poll_error:
  assumes "\<not> now w - start_time > real_of_int timeout"
    and "poll_reply up (polls w) op = (d, res)" and "make_request res = Inl e"
  shows "wait_loop up op timeout poll_interval start_time w =
     Some (w\<lparr>now := now w + d, polls := polls w + 1\<rparr>, Inl e)"
  using assms
  by (subst wait_loop.simps) (simp add: get_job_status_def)

text \<open>What a run of the loop leaves alone, and that the poll counter never falls.\<close>

lemma wait_loop_frame_aux:
  assumes "wait_loop up op timeout poll_interval start_time w = Some y"
  shows "submitted (fst y) = submitted w \<and> fetched (fst y) = fetched w
     \<and> dirs (fst y) = dirs w \<and> files (fst y) = files w \<and> polls w \<le> polls (fst y)"
  using assms
proof (induction rule: wait_loop.raw_induct [rotated 1, consumes 1])
  case (1 wait_loop up op timeout poll_interval start_time w y)
  show ?case
  proof (cases "now w - start_time > real_of_int timeout")
    case True
    with 1(2) show ?thesis by auto
  next
    case False
    obtain d res where pr: "poll_reply up (polls w) op = (d, res)"
      by (cases "poll_reply up (polls w) op")
    show ?thesis
    proof (cases "make_request res")
      case (Inl e)
      with 1(2) False pr show ?thesis
        by (auto simp: get_job_status_def)
    next
      case (Inr status)
      let ?w1 = "w\<lparr>now := now w + d, polls := polls w + 1\<rparr>"
      let ?state = "dict_get status ''state'' (Str ''unknown'')"
      consider (waiting) "?state = Str ''PENDING'' \<or> ?state = Str ''PROCESSING''
                            \<or> ?state = Str ''QUEUED''"
        | (final) "?state \<noteq> Str ''PENDING''" "?state \<noteq> Str ''PROCESSING''"
                  "?state \<noteq> Str ''QUEUED''"
        by blast
      then show ?thesis
      proof cases
        case final
        with 1(2) False pr Inr have "fst y = ?w1"
          by (auto simp: get_job_status_def Let_def split: if_splits)
        then show ?thesis by simp
      next
        case waiting
        show ?thesis
        proof (cases "poll_interval < 0")
          case True
          with 1(2) \<open>\<not> now w - start_time > real_of_int timeout\<close> pr Inr waiting
          have "fst y = ?w1"
            by (auto simp: get_job_status_def py_sleep_def)
          then show ?thesis by simp
        next
          case nonneg: False
          let ?w2 = "?w1\<lparr>now := now ?w1 + real_of_int poll_interval,
                          sleeps := sleeps ?w1 @ [poll_interval]\<rparr>"
          from 1(2) False pr Inr waiting nonneg
          have "wait_loop up op timeout poll_interval start_time ?w2 = Some y"
            by (auto simp: get_job_status_def py_sleep_def)
          from 1(1) [OF this] show ?thesis by simp
        qed
      qed
    qed
  qed
qed

lemma wait_loop_frame:
  "wait_loop up op timeout poll_interval start_time w = Some (w', r) \<Longrightarrow>
   submitted w' = submitted w \<and> fetched w' = fetched w \<and> dirs w' = dirs w
   \<and> files w' = files w \<and> polls w \<le> polls w'"
  using wait_loop_frame_aux [of up op timeout poll_interval start_time w "(w', r)"] by simp

lemma wait_loop_polls_grow:
  assumes nt: "\<not> now w - start_time > real_of_int timeout"
    and run: "wait_loop up op timeout poll_interval start_time w = Some (w', r)"
  shows "polls w < polls w'"
proof -
  obtain d res where pr: "poll_reply up (polls w) op = (d, res)"
    by (cases "poll_reply up (polls w) op")
  let ?w1 = "w\<lparr>now := now w + d, polls := polls w + 1\<rparr>"
  show ?thesis
  proof (cases "make_request res")
    case (Inl e)
    from wait_loop_poll_error [OF nt pr Inl] run show ?thesis by auto
  next
    case (Inr status)
    then have res: "res = Returned status"
      by (auto simp: make_request_def bad_request_def Let_def
          split: http_result.splits if_splits option.splits)
    let ?state = "dict_get status ''state'' (Str ''unknown'')"
    from pr res have pr': "poll_reply up (polls w) op = (d, Returned status)" by simp
    note step = wait_loop_poll [OF nt pr', of poll_interval]
    consider (waiting) "?state = Str ''PENDING'' \<or> ?state = Str ''PROCESSING''
                            \<or> ?state = Str ''QUEUED''"
      | (final) "?state \<noteq> Str ''PENDING''" "?state \<noteq> Str ''PROCESSING''"
                "?state \<noteq> Str ''QUEUED''"
      by blast
    then show ?thesis
    proof cases
      case final
      with step run have "w' = ?w1"
        by (auto simp: Let_def split: if_splits)
      then show ?thesis by simp
    next
      case waiting
      show ?thesis
      proof (cases "poll_interval < 0")
        case True
        with step run waiting have "w' = ?w1"
          by (auto simp: py_sleep_def)
        then show ?thesis by simp
      next
        case False
        let ?w2 = "?w1\<lparr>now := now ?w1 + real_of_int poll_interval,
                        sleeps := sleeps ?w1 @ [poll_interval]\<rparr>"
        from step run waiting False
        have "wait_loop up op timeout poll_interval start_time ?w2 = Some (w', r)"
          by (auto simp: py_sleep_def)
        from wait_loop_frame [OF this] show ?thesis by simp
      qed
    qed
  qed
qed

section \<open>Timeout\<close>

text \<open>
  C1. The elapsed-time check comes before each poll. At any iteration, if the time
  since the start strictly exceeds the timeout (300 by default), the loop ends with
  the error \<open>Job <id> timed out after <timeout> seconds\<close> in an unchanged world, so
  no poll is issued; otherwise every outcome has issued at least one more poll. With
  timeout 1 and poll interval 10, against an upstream whose every poll answers (in
  non-negative time) with a state among \<open>PENDING\<close>, \<open>PROCESSING\<close>, \<open>QUEUED\<close>, the
  call ends with the timeout error after exactly one poll and one sleep.
\<close>

theorem timeout_checked_before_each_poll:
  "default_timeout = 300
   \<and> (now w - start_time > real_of_int timeout \<longrightarrow>
        wait_loop up op timeout poll_interval start_time w
          = Some (w, Inl (CaptionsAPIError
              (''Job '' @ py_str op @ '' timed out after '' @ str_int timeout
                 @ '' seconds''))))
   \<and> (\<not> now w - start_time > real_of_int timeout \<longrightarrow>
        (\<forall>w' r. wait_loop up op timeout poll_interval start_time w = Some (w', r)
            \<longrightarrow> polls w < polls w'))
   \<and> ((\<forall>i. \<exists>d status. poll_reply up i op = (d, Returned status) \<and> 0 \<le> d
            \<and> dict_get status ''state'' (Str ''unknown'')
                 \<in> {Str ''PENDING'', Str ''PROCESSING'', Str ''QUEUED''}) \<longrightarrow>
        (\<exists>w'. wait_for_completion up op 1 10 w
                = Some (w', Inl (CaptionsAPIError
                    (''Job '' @ py_str op @ '' timed out after 1 seconds'')))
              \<and> polls w' = polls w + 1 \<and> sleeps w' = sleeps w @ [10]))"
proof (intro conjI impI)
  show "default_timeout = 300" by (simp add: default_timeout_def)
next
  assume "now w - start_time > real_of_int timeout"
  then show "wait_loop up op timeout poll_interval start_time w
          = Some (w, Inl (CaptionsAPIError
              (''Job '' @ py_str op @ '' timed out after '' @ str_int timeout
                 @ '' seconds'')))"
    by (rule wait_loop_timed_out)
next
  assume "\<not> now w - start_time > real_of_int timeout"
  then show "\<forall>w' r. wait_loop up op timeout poll_interval start_time w = Some (w', r)
            \<longrightarrow> polls w < polls w'"
    using wait_loop_polls_grow by blast
next
  assume never: "\<forall>i. \<exists>d status. poll_reply up i op = (d, Returned status) \<and> 0 \<le> d
            \<and> dict_get status ''state'' (Str ''unknown'')
                 \<in> {Str ''PENDING'', Str ''PROCESSING'', Str ''QUEUED''}"
  then obtain d status where pr: "poll_reply up (polls w) op = (d, Returned status)"
    and d: "0 \<le> d"
    and st: "dict_get status ''state'' (Str ''unknown'')
                 \<in> {Str ''PENDING'', Str ''PROCESSING'', Str ''QUEUED''}"
    by blast
  let ?w1 = "w\<lparr>now := now w + d, polls := polls w + 1\<rparr>"
  let ?w2 = "?w1\<lparr>now := now ?w1 + real_of_int 10, sleeps := sleeps ?w1 @ [10]\<rparr>"
  have first: "wait_loop up op 1 10 (now w) w = wait_loop up op 1 10 (now w) ?w2"
    using st by (subst wait_loop_poll [OF _ pr]) (auto simp: py_sleep_def)
  have "now ?w2 - now w > real_of_int 1" using d by simp
  from wait_loop_timed_out [OF this, of up op 10]
  have "wait_loop up op 1 10 (now w) ?w2
     = Some (?w2, Inl (CaptionsAPIError (''Job '' @ py_str op @ '' timed out after 1 seconds'')))"
    by (simp add: str_int_1)
  with first show "\<exists>w'. wait_for_completion up op 1 10 w
                = Some (w', Inl (CaptionsAPIError
                    (''Job '' @ py_str op @ '' timed out after 1 seconds'')))
              \<and> polls w' = polls w + 1 \<and> sleeps w' = sleeps w @ [10]"
    by (simp add: wait_for_completion_def)
qed

theorem timeout_checked_before_each_poll_witness:
  "(\<forall>i. \<exists>d status. poll_reply (scripted_upstream []) i (Str ''op123'') = (d, Returned status)
        \<and> 0 \<le> d
        \<and> dict_get status ''state'' (Str ''unknown'')
             \<in> {Str ''PENDING'', Str ''PROCESSING'', Str ''QUEUED''})
   \<and> (\<exists>w'. wait_for_completion (scripted_upstream []) (Str ''op123'') 1 10 fresh_world
              = Some (w', Inl (CaptionsAPIError ''Job op123 timed out after 1 seconds''))
            \<and> polls w' = 1 \<and> sleeps w' = [10])
   \<and> wait_loop (scripted_upstream []) (Str ''op123'') 300 10 0 (fresh_world\<lparr>now := 301\<rparr>)
       = Some (fresh_world\<lparr>now := 301\<rparr>,
               Inl (CaptionsAPIError ''Job op123 timed out after 300 seconds''))"
proof -
  have never: "\<forall>i. \<exists>d status.
        poll_reply (scripted_upstream []) i (Str ''op123'') = (d, Returned status)
        \<and> 0 \<le> d
        \<and> dict_get status ''state'' (Str ''unknown'')
             \<in> {Str ''PENDING'', Str ''PROCESSING'', Str ''QUEUED''}"
    by (simp add: scripted_poll dict_get_def)
  have late: "now (fresh_world\<lparr>now := 301\<rparr>) - 0 > real_of_int 300" by simp
  note at_late = timeout_checked_before_each_poll
        [where w = "fresh_world\<lparr>now := 301\<rparr>" and start_time = 0 and timeout = 300
           and up = "scripted_upstream []" and op = "Str ''op123''" and poll_interval = 10,
         THEN conjunct2, THEN conjunct1, THEN mp, OF late]
  note at_start = timeout_checked_before_each_poll
        [where w = fresh_world and start_time = 0 and timeout = 300
           and up = "scripted_upstream []" and op = "Str ''op123''" and poll_interval = 10,
         THEN conjunct2, THEN conjunct2, THEN conjunct2, THEN mp, OF never]
  show ?thesis
    using never at_late at_start
    by (simp add: str_int_300 fresh_world_def)
qed

section \<open>Polling to completion\<close>

text \<open>
  C2. When the next three polls answer \<open>PENDING\<close>, \<open>PROCESSING\<close> and \<open>COMPLETE\<close> with
  the URL \<open>https://x/video.mp4\<close>, and the first two answers arrive soon enough for
  the default budget of 300 (the first within 290, both within 280 in total),
  \<open>wait_for_completion\<close> with the default timeout and poll interval returns that
  URL after three polls and exactly two sleeps, each of the poll interval 10.
\<close>

theorem pending_processing_complete_two_sleeps:
  assumes "poll_reply up (polls w) op = (d0, Returned s0)"
      "s0 ''state'' = Some (Str ''PENDING'')"
    and "poll_reply up (polls w + 1) op = (d1, Returned s1)"
      "s1 ''state'' = Some (Str ''PROCESSING'')"
    and "poll_reply up (polls w + 2) op = (d2, Returned s2)"
      "s2 ''state'' = Some (Str ''COMPLETE'')"
      "s2 ''url'' = Some (Str ''https://x/video.mp4'')"
    and "d0 \<le> 290" "d0 + d1 \<le> 280"
  shows "\<exists>w'. wait_for_completion up op default_timeout default_poll_interval w
            = Some (w', Inr (Str ''https://x/video.mp4''))
          \<and> sleeps w' = sleeps w @ [default_poll_interval, default_poll_interval]
          \<and> default_poll_interval = 10
          \<and> polls w' = polls w + 3"
proof -
  let ?w1 = "w\<lparr>now := now w + d0, polls := polls w + 1\<rparr>"
  let ?w2 = "?w1\<lparr>now := now ?w1 + real_of_int 10, sleeps := sleeps ?w1 @ [10]\<rparr>"
  let ?w3 = "?w2\<lparr>now := now ?w2 + d1, polls := polls ?w2 + 1\<rparr>"
  let ?w4 = "?w3\<lparr>now := now ?w3 + real_of_int 10, sleeps := sleeps ?w3 @ [10]\<rparr>"
  let ?w5 = "?w4\<lparr>now := now ?w4 + d2, polls := polls ?w4 + 1\<rparr>"
  have a: "wait_loop up op 300 10 (now w) w = wait_loop up op 300 10 (now w) ?w2"
    using assms(1,2)
    by (subst wait_loop_poll [where d = d0 and status = s0])
       (auto simp: py_sleep_def dict_get_def)
  have b: "wait_loop up op 300 10 (now w) ?w2 = wait_loop up op 300 10 (now w) ?w4"
    using assms(3,4,8)
    by (subst wait_loop_poll [where d = d1 and status = s1])
       (auto simp: py_sleep_def dict_get_def)
  have c: "wait_loop up op 300 10 (now w) ?w4 = Some (?w5, Inr (Str ''https://x/video.mp4''))"
    using assms(5,6,7,9)
    by (subst wait_loop_poll [where d = d2 and status = s2])
       (auto simp: dict_get_def numeral_3_eq_3 numeral_2_eq_2)
  from a b c have "wait_for_completion up op default_timeout default_poll_interval w
      = Some (?w5, Inr (Str ''https://x/video.mp4''))"
    by (simp add: wait_for_completion_def default_timeout_def default_poll_interval_def)
  then show ?thesis
    by (simp add: default_poll_interval_def)
qed

theorem pending_processing_complete_two_sleeps_witness:
  "\<exists>w'. wait_for_completion
          (scripted_upstream
             [[''state'' \<mapsto> Str ''PENDING''], [''state'' \<mapsto> Str ''PROCESSING''],
              [''state'' \<mapsto> Str ''COMPLETE'', ''url'' \<mapsto> Str ''https://x/video.mp4'']])
          (Str ''op123'') default_timeout default_poll_interval fresh_world
        = Some (w', Inr (Str ''https://x/video.mp4''))
      \<and> sleeps w' = [10, 10] \<and> polls w' = 3"
  using pending_processing_complete_two_sleeps
    [where up = "scripted_upstream
             [[''state'' \<mapsto> Str ''PENDING''], [''state'' \<mapsto> Str ''PROCESSING''],
              [''state'' \<mapsto> Str ''COMPLETE'', ''url'' \<mapsto> Str ''https://x/video.mp4'']]"
       and w = fresh_world and op = "Str ''op123''" and ?d0.0 = 0 and ?d1.0 = 0 and ?d2.0 = 0
       and ?s0.0 = "[''state'' \<mapsto> Str ''PENDING'']"
       and ?s1.0 = "[''state'' \<mapsto> Str ''PROCESSING'']"
       and ?s2.0 = "[''state'' \<mapsto> Str ''COMPLETE'', ''url'' \<mapsto> Str ''https://x/video.mp4'']"]
  by (simp add: scripted_poll fresh_world_def default_poll_interval_def)

text \<open>
  C3. When an iteration within the budget polls and the answer has state \<open>COMPLETE\<close>,
  the loop ends there, after that one poll and without sleeping: with the URL when
  the answer carries one (a value of the \<open>url\<close> field that Python counts as true),
  and with the error \<open>Job completed but no video URL found\<close> when the field is
  missing (or holds an empty or null value). It is never retried.
\<close>

theorem complete_returns_url_or_fails:
  assumes "\<not> now w - start_time > real_of_int timeout"
    and "poll_reply up (polls w) op = (d, Returned status)"
    and "status ''state'' = Some (Str ''COMPLETE'')"
  shows "wait_loop up op timeout poll_interval start_time w =
     Some (w\<lparr>now := now w + d, polls := polls w + 1\<rparr>,
           case status ''url'' of
             None \<Rightarrow> Inl (CaptionsAPIError ''Job completed but no video URL found'')
           | Some u \<Rightarrow>
               if truthy u then Inr u
               else Inl (CaptionsAPIError ''Job completed but no video URL found''))"
  using assms(3)
  by (subst wait_loop_poll [OF assms(1,2)])
     (simp add: dict_get_def py_None_def split: option.splits)

theorem complete_returns_url_or_fails_witness:
  "wait_loop (scripted_upstream
        [[''state'' \<mapsto> Str ''COMPLETE'', ''url'' \<mapsto> Str ''https://x/video.mp4'']])
      (Str ''op123'') 300 10 0 fresh_world
     = Some (fresh_world\<lparr>polls := 1\<rparr>, Inr (Str ''https://x/video.mp4''))
   \<and> wait_loop (scripted_upstream [[''state'' \<mapsto> Str ''COMPLETE'']])
      (Str ''op123'') 300 10 0 fresh_world
     = Some (fresh_world\<lparr>polls := 1\<rparr>,
             Inl (CaptionsAPIError ''Job completed but no video URL found''))
   \<and> wait_loop (scripted_upstream [[''state'' \<mapsto> Str ''COMPLETE'', ''url'' \<mapsto> Str '''']])
      (Str ''op123'') 300 10 0 fresh_world
     = Some (fresh_world\<lparr>polls := 1\<rparr>,
             Inl (CaptionsAPIError ''Job completed but no video URL found''))"
  using complete_returns_url_or_fails
    [where up = "scripted_upstream
        [[''state'' \<mapsto> Str ''COMPLETE'', ''url'' \<mapsto> Str ''https://x/video.mp4'']]"
       and w = fresh_world and op = "Str ''op123''" and start_time = 0 and timeout = 300
       and d = 0 and poll_interval = 10
       and status = "[''state'' \<mapsto> Str ''COMPLETE'', ''url'' \<mapsto> Str ''https://x/video.mp4'']"]
    complete_returns_url_or_fails
    [where up = "scripted_upstream [[''state'' \<mapsto> Str ''COMPLETE'']]"
       and w = fresh_world and op = "Str ''op123''" and start_time = 0 and timeout = 300
       and d = 0 and poll_interval = 10
       and status = "[''state'' \<mapsto> Str ''COMPLETE'']"]
    complete_returns_url_or_fails
    [where up = "scripted_upstream [[''state'' \<mapsto> Str ''COMPLETE'', ''url'' \<mapsto> Str '''']]"
       and w = fresh_world and op = "Str ''op123''" and start_time = 0 and timeout = 300
       and d = 0 and poll_interval = 10
       and status = "[''state'' \<mapsto> Str ''COMPLETE'', ''url'' \<mapsto> Str '''']"]
  by (simp add: scripted_poll fresh_world_def)

text \<open>
  C4. When an iteration within the budget polls and the state of the answer is none
  of \<open>PENDING\<close>, \<open>PROCESSING\<close>, \<open>QUEUED\<close>, \<open>COMPLETE\<close>, \<open>FAILED\<close>, the loop ends
  there, after that one poll and without sleeping, with the error
  \<open>Unknown job state: <state>\<close> naming the state as received.
\<close>

theorem unrecognised_state_fails:
  assumes "\<not> now w - start_time > real_of_int timeout"
    and "poll_reply up (polls w) op = (d, Returned status)"
    and "dict_get status ''state'' (Str ''unknown'')
           \<notin> {Str ''PENDING'', Str ''PROCESSING'', Str ''QUEUED'', Str ''COMPLETE'',
               Str ''FAILED''}"
  shows "wait_loop up op timeout poll_interval start_time w =
     Some (w\<lparr>now := now w + d, polls := polls w + 1\<rparr>,
           Inl (CaptionsAPIError
                  (''Unknown job state: ''
                     @ py_str (dict_get status ''state'' (Str ''unknown'')))))"
  using assms(3)
  by (subst wait_loop_poll [OF assms(1,2)]) simp

theorem unrecognised_state_fails_witness:
  "wait_loop (scripted_upstream [[''state'' \<mapsto> Str ''WEIRD_STATE'']])
      (Str ''op123'') 300 10 0 fresh_world
     = Some (fresh_world\<lparr>polls := 1\<rparr>,
             Inl (CaptionsAPIError ''Unknown job state: WEIRD_STATE''))"
  using unrecognised_state_fails
    [where up = "scripted_upstream [[''state'' \<mapsto> Str ''WEIRD_STATE'']]"
       and w = fresh_world and op = "Str ''op123''" and start_time = 0 and timeout = 300
       and d = 0 and poll_interval = 10
       and status = "[''state'' \<mapsto> Str ''WEIRD_STATE'']"]
  by (simp add: scripted_poll fresh_world_def dict_get_def)

text \<open>
  C10. When an iteration within the budget polls and the answer has no \<open>state\<close>
  field, the state is taken to be the string \<open>unknown\<close> and the loop ends there,
  after that one poll and without sleeping, with the error
  \<open>Unknown job state: unknown\<close>.
\<close>

theorem missing_state_fails:
  assumes "\<not> now w - start_time > real_of_int timeout"
    and "poll_reply up (polls w) op = (d, Returned status)"
    and "status ''state'' = None"
  shows "wait_loop up op timeout poll_interval start_time w =
     Some (w\<lparr>now := now w + d, polls := polls w + 1\<rparr>,
           Inl (CaptionsAPIError ''Unknown job state: unknown''))"
  using assms(3)
  by (subst wait_loop_poll [OF assms(1,2)]) (simp add: dict_get_def)

theorem missing_state_fails_witness:
  "wait_loop (scripted_upstream [[''progress'' \<mapsto> Str ''50%'']])
      (Str ''op123'') 300 10 0 fresh_world
     = Some (fresh_world\<lparr>polls := 1\<rparr>,
             Inl (CaptionsAPIError ''Unknown job state: unknown''))"
  using missing_state_fails
    [where up = "scripted_upstream [[''progress'' \<mapsto> Str ''50%'']]"
       and w = fresh_world and op = "Str ''op123''" and start_time = 0 and timeout = 300
       and d = 0 and poll_interval = 10
       and status = "[''progress'' \<mapsto> Str ''50%'']"]
  by (simp add: scripted_poll fresh_world_def)

section \<open>The whole workflow\<close>

lemma makedirs_frame:
  "makedirs p w = Inr w1 \<Longrightarrow>
   files w1 = files w \<and> fetched w1 = fetched w \<and> submitted w1 = submitted w
   \<and> polls w1 = polls w \<and> now w1 = now w"
  by (auto simp: makedirs_def split: if_splits)

lemma create_ai_ad_frame:
  "create_ai_ad up s c m res wh w = (w2, r) \<Longrightarrow>
   files w2 = files w \<and> fetched w2 = fetched w \<and> polls w2 = polls w
   \<and> submitted w2 = submitted w @ [build_payload s c m res wh]"
  by (auto simp: create_ai_ad_def Let_def split: prod.splits sum.splits if_splits)

lemma create_ai_ad_ok:
  assumes "submit_reply up (build_payload s c m res wh) = (d, Returned response)"
    and "response ''operationId'' = Some op" and "truthy op"
  shows "create_ai_ad up s c m res wh w =
     (w\<lparr>now := now w + d, submitted := submitted w @ [build_payload s c m res wh]\<rparr>, Inr op)"
  using assms by (simp add: create_ai_ad_def make_request_def dict_get_def)

lemma wait_for_completion_frame:
  "wait_for_completion up op timeout poll_interval w = Some (w', r) \<Longrightarrow>
   submitted w' = submitted w \<and> fetched w' = fetched w \<and> dirs w' = dirs w
   \<and> files w' = files w \<and> polls w \<le> polls w'"
  unfolding wait_for_completion_def by (rule wait_loop_frame)

lemma download_video_frame:
  "download_video up url path w = (w', r) \<Longrightarrow>
   submitted w' = submitted w \<and> polls w' = polls w \<and> fetched w' = fetched w @ [url]"
  by (auto simp: download_video_def makedirs_def Let_def
      split: prod.splits download_result.splits sum.splits if_splits)

lemma generate_ad_video_cases:
  assumes run: "generate_ad_video up s c m res wh od fn w = Some (w', r)"
  shows "(fetched w' = fetched w \<and> files w' = files w
          \<and> (\<exists>e. r = Inl e))
       \<or> (\<exists>w1 w2 op w3 url.
             makedirs od w = Inr w1 \<and> create_ai_ad up s c m res wh w1 = (w2, Inr op)
             \<and> wait_for_completion up op default_timeout default_poll_interval w2
                 = Some (w3, Inr url)
             \<and> fetched w' = fetched w @ [url])"
proof (cases "validate_inputs s c res")
  case (Inl e)
  with run show ?thesis by (auto simp: generate_ad_video_def)
next
  case valid: (Inr u)
  show ?thesis
  proof (cases "makedirs od w")
    case (Inl e)
    with run valid show ?thesis by (auto simp: generate_ad_video_def)
  next
    case made: (Inr w1)
    obtain w2 cr where cr: "create_ai_ad up s c m res wh w1 = (w2, cr)"
      by (cases "create_ai_ad up s c m res wh w1")
    note f1 = makedirs_frame [OF made] and f2 = create_ai_ad_frame [OF cr]
    show ?thesis
    proof (cases cr)
      case (Inl e)
      with run valid made cr have "w' = w2" "r = Inl e"
        by (simp_all add: generate_ad_video_def Let_def)
      with f1 f2 show ?thesis by simp
    next
      case created: (Inr op)
      show ?thesis
      proof (cases "wait_for_completion up op default_timeout default_poll_interval w2")
        case None
        with run valid made cr created show ?thesis
          by (simp add: generate_ad_video_def Let_def)
      next
        case (Some y)
        obtain w3 wr where y: "y = (w3, wr)" by (cases y)
        note f3 = wait_for_completion_frame [OF Some [unfolded y]]
        show ?thesis
        proof (cases wr)
          case (Inl e)
          with run valid made cr created Some y have "w' = w3" "r = Inl e"
            by (simp_all add: generate_ad_video_def Let_def)
          with f1 f2 f3 show ?thesis by simp
        next
          case (Inr url)
          with run valid made cr created Some y
          obtain path where "download_video up url path w3 = (w', r)"
            by (auto simp: generate_ad_video_def Let_def)
          from download_video_frame [OF this] f1 f2 f3
          have "fetched w' = fetched w @ [url]" by simp
          with made cr created Some y Inr show ?thesis by blast
        qed
      qed
    qed
  qed
qed

lemma py_strip_demo:
  "py_strip ''Buy our new shoes today'' = ''Buy our new shoes today''"
  "py_strip ''Kate'' = ''Kate''"
  by code_simp+

lemma py_lower_demo: "py_lower ''fhd'' = ''fhd''" "py_lower ''FHD'' = ''fhd''"
  by code_simp+

lemma validate_demo:
  "validate_inputs ''Buy our new shoes today'' ''Kate'' ''fhd'' = Inr ()"
  "validate_inputs ''Buy our new shoes today'' ''Kate'' ''FHD'' = Inr ()"
  by (simp_all add: validate_inputs_def py_strip_demo py_lower_demo valid_resolutions_def)

text \<open>
  C9. When the inputs are valid, submission answers with an operation id and the
  first poll answers \<open>FAILED\<close> with the error detail \<open>bad media\<close>,
  \<open>generate_ad_video\<close> ends with the error \<open>Job <id> failed: bad media\<close>, after one
  poll, having fetched nothing and written no file. In every run that ends, either
  nothing was fetched, no file was written and the result is an error, or the
  directory was made, submission returned an operation id and
  \<open>wait_for_completion\<close> returned a URL: the download runs only after both
  succeeded.
\<close>

theorem failed_job_propagates_and_writes_nothing:
  "(validate_inputs s c res = Inr () \<and> od \<noteq> []
      \<and> submit_reply up (build_payload s c m res wh) = (ds, Returned response)
      \<and> response ''operationId'' = Some op \<and> truthy op
      \<and> poll_reply up (polls w) op = (dp, Returned status)
      \<and> status ''state'' = Some (Str ''FAILED'')
      \<and> status ''error'' = Some (Str ''bad media'')
     \<longrightarrow> (\<exists>w'. generate_ad_video up s c m res wh od fn w
                  = Some (w', Inl (CaptionsAPIError
                       (''Job '' @ py_str op @ '' failed: bad media'')))
               \<and> files w' = files w \<and> fetched w' = fetched w \<and> polls w' = polls w + 1))
   \<and> (\<forall>w' r. generate_ad_video up s c m res wh od fn w = Some (w', r) \<longrightarrow>
         (fetched w' = fetched w \<and> files w' = files w \<and> (\<exists>e. r = Inl e))
         \<or> (\<exists>w1 w2 op w3 url.
               makedirs od w = Inr w1 \<and> create_ai_ad up s c m res wh w1 = (w2, Inr op)
               \<and> wait_for_completion up op default_timeout default_poll_interval w2
                   = Some (w3, Inr url)
               \<and> fetched w' = fetched w @ [url]))"
proof (intro conjI impI allI)
  assume a: "validate_inputs s c res = Inr () \<and> od \<noteq> []
      \<and> submit_reply up (build_payload s c m res wh) = (ds, Returned response)
      \<and> response ''operationId'' = Some op \<and> truthy op
      \<and> poll_reply up (polls w) op = (dp, Returned status)
      \<and> status ''state'' = Some (Str ''FAILED'')
      \<and> status ''error'' = Some (Str ''bad media'')"
  let ?w1 = "w\<lparr>dirs := insert od (dirs w)\<rparr>"
  let ?w2 = "?w1\<lparr>now := now ?w1 + ds,
                   submitted := submitted ?w1 @ [build_payload s c m res wh]\<rparr>"
  let ?w3 = "?w2\<lparr>now := now ?w2 + dp, polls := polls ?w2 + 1\<rparr>"
  from a have md: "makedirs od w = Inr ?w1" by (simp add: makedirs_def)
  from a have sr: "submit_reply up (build_payload s c m res wh) = (ds, Returned response)"
    and oid: "response ''operationId'' = Some op" "truthy op" by simp_all
  have cr: "create_ai_ad up s c m res wh ?w1 = (?w2, Inr op)"
    by (rule create_ai_ad_ok [OF sr oid])
  have nt: "\<not> now ?w2 - now ?w2 > real_of_int default_timeout"
    by (simp add: default_timeout_def)
  from a have pr: "poll_reply up (polls ?w2) op = (dp, Returned status)" by simp
  have "wait_for_completion up op default_timeout default_poll_interval ?w2
      = Some (?w3, Inl (CaptionsAPIError (''Job '' @ py_str op @ '' failed: bad media'')))"
    unfolding wait_for_completion_def
    using a by (subst wait_loop_poll [OF nt pr]) (simp add: dict_get_def)
  with a md cr
  have "generate_ad_video up s c m res wh od fn w
     = Some (?w3, Inl (CaptionsAPIError (''Job '' @ py_str op @ '' failed: bad media'')))"
    by (simp add: generate_ad_video_def Let_def)
  then show "\<exists>w'. generate_ad_video up s c m res wh od fn w
                  = Some (w', Inl (CaptionsAPIError
                       (''Job '' @ py_str op @ '' failed: bad media'')))
               \<and> files w' = files w \<and> fetched w' = fetched w \<and> polls w' = polls w + 1"
    by simp
next
  fix w' r
  assume "generate_ad_video up s c m res wh od fn w = Some (w', r)"
  then show "(fetched w' = fetched w \<and> files w' = files w \<and> (\<exists>e. r = Inl e))
         \<or> (\<exists>w1 w2 op w3 url.
               makedirs od w = Inr w1 \<and> create_ai_ad up s c m res wh w1 = (w2, Inr op)
               \<and> wait_for_completion up op default_timeout default_poll_interval w2
                   = Some (w3, Inr url)
               \<and> fetched w' = fetched w @ [url])"
    by (rule generate_ad_video_cases)
qed

theorem failed_job_propagates_and_writes_nothing_witness:
  "\<exists>w'. generate_ad_video
          (scripted_upstream [[''state'' \<mapsto> Str ''FAILED'', ''error'' \<mapsto> Str ''bad media'']])
          ''Buy our new shoes today'' ''Kate'' None ''fhd'' None ''out'' None fresh_world
        = Some (w', Inl (CaptionsAPIError ''Job op123 failed: bad media''))
      \<and> files w' = Map.empty \<and> fetched w' = [] \<and> polls w' = 1"
proof -
  let ?up = "scripted_upstream [[''state'' \<mapsto> Str ''FAILED'', ''error'' \<mapsto> Str ''bad media'']]"
  have h: "validate_inputs ''Buy our new shoes today'' ''Kate'' ''fhd'' = Inr () \<and> ''out'' \<noteq> []
      \<and> submit_reply ?up (build_payload ''Buy our new shoes today'' ''Kate'' None ''fhd'' None)
          = (0, Returned [''operationId'' \<mapsto> Str ''op123''])
      \<and> [''operationId'' \<mapsto> Str ''op123''] ''operationId'' = Some (Str ''op123'')
      \<and> truthy (Str ''op123'')
      \<and> poll_reply ?up (polls fresh_world) (Str ''op123'')
          = (0, Returned [''state'' \<mapsto> Str ''FAILED'', ''error'' \<mapsto> Str ''bad media''])
      \<and> [''state'' \<mapsto> Str ''FAILED'', ''error'' \<mapsto> Str ''bad media''] ''state''
          = Some (Str ''FAILED'')
      \<and> [''state'' \<mapsto> Str ''FAILED'', ''error'' \<mapsto> Str ''bad media''] ''error''
          = Some (Str ''bad media'')"
    by (simp add: validate_demo scripted_submit scripted_poll fresh_world_def)
  from failed_job_propagates_and_writes_nothing
         [where fn = None and w = fresh_world, THEN conjunct1, THEN mp, OF h]
  show ?thesis by (simp add: fresh_world_def)
qed

section \<open>The submitted payload\<close>

lemma uppercase_run:
  "generate_ad_video
     (scripted_upstream
        [[''state'' \<mapsto> Str ''COMPLETE'', ''url'' \<mapsto> Str ''https://x/video.mp4'']])
     ''Buy our new shoes today'' ''Kate'' None ''FHD'' None ''out'' None fresh_world
   = Some (\<lparr> now = 0,
             submitted = [\<lparr> p_script = ''Buy our new shoes today'', p_creatorName = ''Kate'',
                             p_mediaUrls = placeholder_media, p_resolution = ''FHD'',
                             p_webhookId = None \<rparr>],
             polls = 1, sleeps = [], fetched = [Str ''https://x/video.mp4''],
             dirs = {''out''},
             files = [''out/ai_ad_Kate_FHD_20240101_120000.mp4'' \<mapsto> ''video-bytes''] \<rparr>,
           Inr ''out/ai_ad_Kate_FHD_20240101_120000.mp4'')"
proof -
  let ?up = "scripted_upstream
        [[''state'' \<mapsto> Str ''COMPLETE'', ''url'' \<mapsto> Str ''https://x/video.mp4'']]"
  let ?pl = "\<lparr> p_script = ''Buy our new shoes today'', p_creatorName = ''Kate'',
                             p_mediaUrls = placeholder_media, p_resolution = ''FHD'',
                             p_webhookId = None \<rparr>"
  let ?w1 = "fresh_world\<lparr>dirs := {''out''}\<rparr>"
  let ?w2 = "?w1\<lparr>submitted := [?pl]\<rparr>"
  let ?w3 = "?w2\<lparr>polls := 1\<rparr>"
  have md: "makedirs ''out'' fresh_world = Inr ?w1"
    by (simp add: makedirs_def fresh_world_def)
  have cr: "create_ai_ad ?up ''Buy our new shoes today'' ''Kate'' None ''FHD'' None ?w1
       = (?w2, Inr (Str ''op123''))"
    by (simp add: create_ai_ad_def scripted_submit build_payload_def make_request_def
        dict_get_def fresh_world_def)
  have wt: "wait_for_completion ?up (Str ''op123'') default_timeout default_poll_interval ?w2
       = Some (?w3, Inr (Str ''https://x/video.mp4''))"
    unfolding wait_for_completion_def
    by (subst wait_loop_poll [where d = 0
          and status = "[''state'' \<mapsto> Str ''COMPLETE'', ''url'' \<mapsto> Str ''https://x/video.mp4'']"])
       (simp_all add: scripted_poll fresh_world_def default_timeout_def dict_get_def)
  have fnm: "generate_filename ''20240101_120000'' ''Buy our new shoes today'' ''Kate'' ''FHD''
      = ''ai_ad_Kate_FHD_20240101_120000.mp4''"
    by (simp add: generate_filename_def py_isalnum_def)
  have pj: "path_join ''out'' ''ai_ad_Kate_FHD_20240101_120000.mp4''
      = ''out/ai_ad_Kate_FHD_20240101_120000.mp4''"
    by (simp add: path_join_def)
  have dn: "path_dirname ''out/ai_ad_Kate_FHD_20240101_120000.mp4'' = ''out''"
    by (simp add: path_dirname_def)
  have dl: "download_video ?up (Str ''https://x/video.mp4'')
       ''out/ai_ad_Kate_FHD_20240101_120000.mp4'' ?w3
     = (?w3\<lparr>fetched := [Str ''https://x/video.mp4''],
            files := [''out/ai_ad_Kate_FHD_20240101_120000.mp4'' \<mapsto> ''video-bytes'']\<rparr>,
        Inr ''out/ai_ad_Kate_FHD_20240101_120000.mp4'')"
    by (simp add: download_video_def dn makedirs_def scripted_upstream_def fresh_world_def)
  have cs: "clock_stamp ?up = ''20240101_120000''" by (simp add: scripted_upstream_def)
  have run: "generate_ad_video ?up ''Buy our new shoes today'' ''Kate'' None ''FHD'' None
        ''out'' None fresh_world
      = Some (download_video ?up (Str ''https://x/video.mp4'')
                ''out/ai_ad_Kate_FHD_20240101_120000.mp4'' ?w3)"
    by (simp add: generate_ad_video_def validate_demo md cr wt fnm pj cs)
  show ?thesis
    unfolding run dl by (simp add: fresh_world_def)
qed

text \<open>
  C8, as stated, fails: the resolution \<open>FHD\<close> passes validation, which compares the
  lowercased value, and the payload is submitted with \<open>FHD\<close> as written, which is
  none of \<open>fhd\<close>, \<open>hd\<close>, \<open>4k\<close>.
\<close>

theorem uppercase_resolution_counterexample:
  "validate_inputs ''Buy our new shoes today'' ''Kate'' ''FHD'' = Inr ()
   \<and> map p_resolution
        (submitted (fst (the (generate_ad_video
           (scripted_upstream
              [[''state'' \<mapsto> Str ''COMPLETE'', ''url'' \<mapsto> Str ''https://x/video.mp4'']])
           ''Buy our new shoes today'' ''Kate'' None ''FHD'' None ''out'' None fresh_world))))
       = [''FHD'']
   \<and> ''FHD'' \<notin> {''fhd'', ''hd'', ''4k''}"
  by (simp add: uppercase_run validate_demo)

lemma build_payload_fields:
  "p_resolution (build_payload s c m res wh) = res"
  "p_mediaUrls (build_payload s c m res wh) \<noteq> []"
  "m = None \<or> m = Some [] \<Longrightarrow> p_mediaUrls (build_payload s c m res wh) = placeholder_media"
  "m = Some us \<Longrightarrow> us \<noteq> [] \<Longrightarrow> p_mediaUrls (build_payload s c m res wh) = us"
  "length placeholder_media = 1"
  by (auto simp: build_payload_def placeholder_media_def split: option.splits)

lemma generate_ad_video_submits:
  assumes run: "generate_ad_video up s c m res wh od fn w = Some (w', r)"
  shows "submitted w' = submitted w
     \<or> (submitted w' = submitted w @ [build_payload s c m res wh]
        \<and> validate_inputs s c res = Inr ())"
proof (cases "validate_inputs s c res")
  case (Inl e)
  with run show ?thesis by (auto simp: generate_ad_video_def)
next
  case valid: (Inr u)
  show ?thesis
  proof (cases "makedirs od w")
    case (Inl e)
    with run valid show ?thesis by (auto simp: generate_ad_video_def)
  next
    case made: (Inr w1)
    obtain w2 cr where cr: "create_ai_ad up s c m res wh w1 = (w2, cr)"
      by (cases "create_ai_ad up s c m res wh w1")
    from makedirs_frame [OF made] create_ai_ad_frame [OF cr]
    have sub2: "submitted w2 = submitted w @ [build_payload s c m res wh]" by simp
    have "submitted w' = submitted w2"
    proof (cases cr)
      case (Inl e)
      with run valid made cr show ?thesis by (simp add: generate_ad_video_def Let_def)
    next
      case created: (Inr op)
      show ?thesis
      proof (cases "wait_for_completion up op default_timeout default_poll_interval w2")
        case None
        with run valid made cr created show ?thesis
          by (simp add: generate_ad_video_def Let_def)
      next
        case (Some y)
        obtain w3 wr where y: "y = (w3, wr)" by (cases y)
        note f3 = wait_for_completion_frame [OF Some [unfolded y]]
        show ?thesis
        proof (cases wr)
          case (Inl e)
          with run valid made cr created Some y have "w' = w3"
            by (simp add: generate_ad_video_def Let_def)
          with f3 show ?thesis by simp
        next
          case (Inr url)
          with run valid made cr created Some y
          obtain path where "download_video up url path w3 = (w', r)"
            by (auto simp: generate_ad_video_def Let_def)
          from download_video_frame [OF this] f3 show ?thesis by simp
        qed
      qed
    qed
    with sub2 valid show ?thesis by simp
  qed
qed

text \<open>
  C8, amended. When validation has passed, the payload that \<open>create_ai_ad\<close> submits
  carries the resolution as the caller wrote it, whose lowercased form is one of
  \<open>fhd\<close>, \<open>hd\<close>, \<open>4k\<close>; its media list is not empty: it is the caller's list when
  that is not empty, and the single placeholder URL otherwise. In every run of
  \<open>generate_ad_video\<close> that ends, that payload is the only one submitted, and it is
  submitted only after validation has passed.
\<close>

theorem submitted_payload_invariants:
  "(validate_inputs s c res = Inr () \<longrightarrow>
      submitted (fst (create_ai_ad up s c m res wh w))
        = submitted w @ [build_payload s c m res wh]
      \<and> p_resolution (build_payload s c m res wh) = res
      \<and> py_lower res \<in> {''fhd'', ''hd'', ''4k''}
      \<and> p_mediaUrls (build_payload s c m res wh) \<noteq> []
      \<and> (m = None \<or> m = Some [] \<longrightarrow>
           p_mediaUrls (build_payload s c m res wh) = placeholder_media)
      \<and> (\<forall>us. m = Some us \<and> us \<noteq> [] \<longrightarrow> p_mediaUrls (build_payload s c m res wh) = us)
      \<and> length placeholder_media = 1)
   \<and> (\<forall>w' r. generate_ad_video up s c m res wh od fn w = Some (w', r) \<longrightarrow>
         submitted w' = submitted w
         \<or> (submitted w' = submitted w @ [build_payload s c m res wh]
            \<and> validate_inputs s c res = Inr ()))"
proof (intro conjI impI allI)
  assume valid: "validate_inputs s c res = Inr ()"
  then show "py_lower res \<in> {''fhd'', ''hd'', ''4k''}"
    by (auto simp: validate_inputs_def valid_resolutions_def split: if_splits)
  obtain w2 cr where cr: "create_ai_ad up s c m res wh w = (w2, cr)"
    by (cases "create_ai_ad up s c m res wh w")
  from create_ai_ad_frame [OF cr] cr
  show "submitted (fst (create_ai_ad up s c m res wh w))
        = submitted w @ [build_payload s c m res wh]"
    by simp
next
  fix w' r
  assume "generate_ad_video up s c m res wh od fn w = Some (w', r)"
  then show "submitted w' = submitted w
         \<or> (submitted w' = submitted w @ [build_payload s c m res wh]
            \<and> validate_inputs s c res = Inr ())"
    by (rule generate_ad_video_submits)
qed (use build_payload_fields in auto)

theorem submitted_payload_invariants_witness:
  "validate_inputs ''Buy our new shoes today'' ''Kate'' ''FHD'' = Inr ()
   \<and> py_lower ''FHD'' \<in> {''fhd'', ''hd'', ''4k''}
   \<and> p_resolution
        (build_payload ''Buy our new shoes today'' ''Kate'' None ''FHD'' None) = ''FHD''
   \<and> p_mediaUrls
        (build_payload ''Buy our new shoes today'' ''Kate'' None ''FHD'' None)
       = placeholder_media
   \<and> submitted (fst (create_ai_ad (scripted_upstream []) ''Buy our new shoes today'' ''Kate''
                       None ''FHD'' None fresh_world))
       = [build_payload ''Buy our new shoes today'' ''Kate'' None ''FHD'' None]"
  using submitted_payload_invariants
    [where s = "''Buy our new shoes today''" and c = "''Kate''" and res = "''FHD''"
       and m = None and wh = None and up = "scripted_upstream []" and w = fresh_world,
     THEN conjunct1, THEN mp, OF validate_demo(2)]
  by (simp add: validate_demo fresh_world_def)

end
